theory Spec2Isabelle
  imports Main
begin

section \<open>Python values\<close>

text \<open>
  The program is \<^verbatim>\<open>src/generate_embeddings.py\<close>: a batch job that reads the rows of the
  table \<^verbatim>\<open>resource_embeddings\<close>, renders each row's JSON payload as text, asks a
  sentence-transformer model for the embedding of the text and writes it back.

  An exception of Python is a value of \<open>py_error\<close>; a call that can raise returns
  \<open>py_error + 'a\<close> with \<open>Inl\<close> for the raise. \<open>OtherError\<close> stands for whatever an
  external library raises (loading the model, encoding a text).
\<close>

datatype py_error =
  AttributeError | NameError | RuntimeError | OperationalError | ProgrammingError
  | OtherError string

text \<open>
  A payload is what psycopg2 hands back for a JSON column: \<^verbatim>\<open>None\<close>, a bool, an int, a
  float, a str, a list or a dict with string keys. A dict is an association list in
  insertion order (\<^verbatim>\<open>str\<close> prints in that order). No floating point arithmetic happens
  in the program, so a float is carried as the text \<^verbatim>\<open>repr\<close> gives it. A character is a
  code point below 256.
\<close>

datatype pyval =
  PNone | PBool bool | PInt int | PFloat string | PStr string
  | PList "pyval list" | PDict "(string \<times> pyval) list"

definition digit_char :: "nat \<Rightarrow> char" where
  "digit_char n = ''0123456789abcdef'' ! n"

fun dec_nat :: "nat \<Rightarrow> string" where
  "dec_nat n = (if n < 10 then [digit_char n] else dec_nat (n div 10) @ [digit_char (n mod 10)])"

definition int_str :: "int \<Rightarrow> string" where
  "int_str i = (if i < 0 then CHR ''-'' # dec_nat (nat (- i)) else dec_nat (nat i))"

definition hex2 :: "nat \<Rightarrow> string" where
  "hex2 n = [digit_char (n div 16), digit_char (n mod 16)]"

text \<open>\<^verbatim>\<open>str.isprintable\<close> on code points below 256: the controls, DEL, 0x80..0xa0 and the
  soft hyphen 0xad are not printable.\<close>

definition printable :: "char \<Rightarrow> bool" where
  "printable c = (let n = (of_char c :: nat) in (32 \<le> n \<and> n < 127) \<or> (161 \<le> n \<and> n \<noteq> 173))"

text \<open>\<^verbatim>\<open>repr\<close> of a str: double quotes when the text has a single quote and no double
  quote, single quotes otherwise; the quote and the backslash are escaped, tab, newline
  and carriage return are written \<^verbatim>\<open>\t \n \r\<close>, any other unprintable character as
  \<^verbatim>\<open>\xNN\<close>.\<close>

definition repr_quote :: "string \<Rightarrow> char" where
  "repr_quote s = (if CHR 0x27 \<in> set s \<and> CHR 0x22 \<notin> set s then CHR 0x22 else CHR 0x27)"

definition repr_char :: "char \<Rightarrow> char \<Rightarrow> string" where
  "repr_char q c =
     (if c = q \<or> c = CHR 0x5C then [CHR 0x5C, c]
      else if c = CHR 0x09 then [CHR 0x5C, CHR ''t'']
      else if c = CHR 0x0A then [CHR 0x5C, CHR ''n'']
      else if c = CHR 0x0D then [CHR 0x5C, CHR ''r'']
      else if printable c then [c]
      else CHR 0x5C # CHR ''x'' # hex2 (of_char c))"

definition str_repr :: "string \<Rightarrow> string" where
  "str_repr s = (let q = repr_quote s in q # concat (map (repr_char q) s) @ [q])"

fun join :: "string \<Rightarrow> string list \<Rightarrow> string" where
  "join sep [] = []"
| "join sep [x] = x"
| "join sep (x # y # ys) = x @ sep @ join sep (y # ys)"

fun py_repr :: "pyval \<Rightarrow> string" where
  "py_repr PNone = ''None''"
| "py_repr (PBool b) = (if b then ''True'' else ''False'')"
| "py_repr (PInt i) = int_str i"
| "py_repr (PFloat s) = s"
| "py_repr (PStr s) = str_repr s"
| "py_repr (PList xs) = ''['' @ join '', '' (map py_repr xs) @ '']''"
| "py_repr (PDict kvs) =
     ''{'' @ join '', '' (map (\<lambda>(k, v). str_repr k @ '': '' @ py_repr v) kvs) @ ''}''"

text \<open>\<^verbatim>\<open>str(x)\<close>, which is also what an f-string field \<^verbatim>\<open>{x}\<close> renders for these types.\<close>

definition py_str :: "pyval \<Rightarrow> string" where
  "py_str v = (case v of PStr s \<Rightarrow> s | _ \<Rightarrow> py_repr v)"

text \<open>Truth value testing, as \<^verbatim>\<open>if x\<close> does it.\<close>

definition truthy :: "pyval \<Rightarrow> bool" where
  "truthy v =
     (case v of
        PNone \<Rightarrow> False
      | PBool b \<Rightarrow> b
      | PInt i \<Rightarrow> i \<noteq> 0
      | PFloat s \<Rightarrow> s \<noteq> ''0.0'' \<and> s \<noteq> ''-0.0''
      | PStr s \<Rightarrow> s \<noteq> []
      | PList xs \<Rightarrow> xs \<noteq> []
      | PDict kvs \<Rightarrow> kvs \<noteq> [])"

text \<open>\<^verbatim>\<open>d.get(key, default)\<close>.\<close>

definition dict_get :: "(string \<times> pyval) list \<Rightarrow> string \<Rightarrow> pyval \<Rightarrow> pyval" where
  "dict_get d k dflt = (case map_of d k of None \<Rightarrow> dflt | Some v \<Rightarrow> v)"

text \<open>\<^verbatim>\<open>s.strip()\<close>: whitespace is removed at both ends. Below 256 the whitespace
  characters are 0x09..0x0d, 0x1c..0x20, 0x85 and 0xa0.\<close>

definition is_space :: "char \<Rightarrow> bool" where
  "is_space c = (of_char c \<in> {9, 10, 11, 12, 13, 28, 29, 30, 31, 32, 133, 160 :: nat})"

definition py_strip :: "string \<Rightarrow> string" where
  "py_strip s = rev (dropWhile is_space (rev (dropWhile is_space s)))"

section \<open>The text renderer\<close>

text \<open>
  The \<^verbatim>\<open>try\<close> block of \<^verbatim>\<open>format_resource_text\<close> (lines 53 to 59). \<^verbatim>\<open>resource_data.get\<close>
  exists on a dict only: on any other value the attribute lookup raises
  \<^verbatim>\<open>AttributeError\<close>.
\<close>

definition format_body :: "pyval \<Rightarrow> py_error + string" where
  "format_body resource_data =
     (case resource_data of
        PDict d \<Rightarrow>
          Inr (py_strip
            (''EC2 Instance Configuration:\<newline>Instance Type: ''
              @ py_str (dict_get d ''instance_type'' (PStr ''Unknown''))
              @ ''\<newline>State: '' @ py_str (dict_get d ''state'' (PStr ''Unknown''))
              @ ''\<newline>Environment: '' @ py_str (dict_get d ''environment'' (PStr ''Unknown''))
              @ ''\<newline>Team: '' @ py_str (dict_get d ''team'' (PStr ''Unknown''))
              @ ''\<newline>Region: '' @ py_str (dict_get d ''region'' (PStr ''Unknown''))
              @ ''\<newline>Public IP: ''
              @ (if truthy (dict_get d ''has_public_ip'' PNone) then ''Yes'' else ''No'')))
      | _ \<Rightarrow> Inl AttributeError)"

text \<open>The whole function: \<^verbatim>\<open>except Exception\<close> logs and returns \<^verbatim>\<open>str(resource_data)\<close>.\<close>

definition format_resource_text :: "pyval \<Rightarrow> py_error + string" where
  "format_resource_text resource_data =
     (case format_body resource_data of
        Inr text \<Rightarrow> Inr text
      | Inl e \<Rightarrow> Inr (py_str resource_data))"

section \<open>The embedding generator\<close>

text \<open>
  \<^verbatim>\<open>self.model\<close> is \<^verbatim>\<open>None\<close> until \<^verbatim>\<open>load_model\<close> has run. A loaded model is the function
  that \<^verbatim>\<open>model.encode(text).tolist()\<close> computes; encoding can raise. The vector type \<open>'v\<close>
  is left open: the program never looks inside a vector.
\<close>

record 'v generator =
  model :: "(string \<Rightarrow> py_error + 'v) option"

text \<open>\<open>hub\<close> is what \<^verbatim>\<open>SentenceTransformer('all-MiniLM-L6-v2')\<close> does in this run: it
  raises, or it yields the model. The handler of \<^verbatim>\<open>load_model\<close> logs and raises again.\<close>

definition load_model ::
  "(py_error + (string \<Rightarrow> py_error + 'v)) \<Rightarrow> 'v generator \<Rightarrow> py_error + 'v generator" where
  "load_model hub self =
     (case hub of
        Inl e \<Rightarrow> Inl e
      | Inr encode \<Rightarrow> Inr (self\<lparr>model := Some encode\<rparr>))"

definition get_embedding :: "'v generator \<Rightarrow> string \<Rightarrow> py_error + 'v" where
  "get_embedding self text =
     (case model self of
        None \<Rightarrow> Inl RuntimeError
      | Some encode \<Rightarrow>
          (case encode text of
             Inl e \<Rightarrow> Inl e
           | Inr embedding \<Rightarrow> Inr embedding))"

section \<open>The database, as the driver shows it\<close>

text \<open>
  One row of \<^verbatim>\<open>resource_embeddings\<close>. The column \<^verbatim>\<open>id\<close> is \<open>row_id\<close> here; \<open>None\<close> in
  \<open>embedding\<close> is SQL's NULL.
\<close>

record 'v row =
  row_id :: nat
  resource_type :: string
  resource_id :: string
  resource_data :: pyval
  embedding :: "'v option"

text \<open>The calls the program makes on its connection and cursor, in the order made.\<close>

datatype 'v call =
  Select_Resources
  | Insert_Resource string string pyval
  | Update_Embedding nat 'v
  | Count_Embeddings
  | Sample_Embedding
  | Commit
  | Rollback
  | Close

text \<open>
  The state behind \<^verbatim>\<open>psycopg2\<close>: whether the server accepts a connection
  (\<open>reachable\<close>), the committed table (\<open>committed\<close>), the sequence that numbers new rows
  (\<open>serial\<close>, never rolled back, as in PostgreSQL), the table as the open transaction
  sees it (\<open>working\<close>), the result set the cursor holds (\<open>results\<close>, \<open>None\<close> after a
  statement that returns no rows) and the calls made so far (\<open>calls\<close>).
  A statement on an open connection executes as PostgreSQL specifies it; the failures
  that are modelled are the ones the program's control flow can meet without a fault
  of the server: no connection, no result set to fetch, and the exceptions of the
  Python code itself.
\<close>

record 'v pg =
  reachable :: bool
  committed :: "'v row list"
  serial :: nat
  working :: "'v row list"
  results :: "(nat \<times> string \<times> string \<times> pyval) list option"
  calls :: "'v call list"

definition connect :: "'v pg \<Rightarrow> (py_error + unit) \<times> 'v pg" where
  "connect s =
     (if reachable s then (Inr (), s\<lparr>working := committed s, results := None\<rparr>)
      else (Inl OperationalError, s))"

definition commit :: "'v pg \<Rightarrow> 'v pg" where
  "commit s = s\<lparr>committed := working s, calls := calls s @ [Commit]\<rparr>"

definition rollback :: "'v pg \<Rightarrow> 'v pg" where
  "rollback s = s\<lparr>working := committed s, calls := calls s @ [Rollback]\<rparr>"

definition close :: "'v pg \<Rightarrow> 'v pg" where
  "close s = s\<lparr>results := None, calls := calls s @ [Close]\<rparr>"

text \<open>\<^verbatim>\<open>SELECT id, resource_type, resource_id, resource_data FROM resource_embeddings
  ORDER BY id\<close> (lines 75 to 79): every row of the table, no \<^verbatim>\<open>WHERE\<close>.\<close>

definition select_columns :: "'v row \<Rightarrow> nat \<times> string \<times> string \<times> pyval" where
  "select_columns r = (row_id r, resource_type r, resource_id r, resource_data r)"

definition execute_select :: "'v pg \<Rightarrow> 'v pg" where
  "execute_select s =
     s\<lparr>results := Some (map select_columns (sort_key row_id (working s))),
       calls := calls s @ [Select_Resources]\<rparr>"

text \<open>\<^verbatim>\<open>cursor.fetchall()\<close>: the rest of the result set, which is then used up; with no
  result set the driver raises \<^verbatim>\<open>ProgrammingError\<close>.\<close>

definition fetchall ::
  "'v pg \<Rightarrow> (py_error + (nat \<times> string \<times> string \<times> pyval) list) \<times> 'v pg" where
  "fetchall s =
     (case results s of
        None \<Rightarrow> (Inl ProgrammingError, s)
      | Some rs \<Rightarrow> (Inr rs, s\<lparr>results := Some []\<rparr>))"

text \<open>\<^verbatim>\<open>UPDATE resource_embeddings SET embedding = %s::vector WHERE id = %s\<close>
  (lines 102 to 106).\<close>

definition set_embedding :: "nat \<Rightarrow> 'v \<Rightarrow> 'v row \<Rightarrow> 'v row" where
  "set_embedding i vec r = (if row_id r = i then r\<lparr>embedding := Some vec\<rparr> else r)"

definition execute_update :: "'v \<Rightarrow> nat \<Rightarrow> 'v pg \<Rightarrow> 'v pg" where
  "execute_update vec i s =
     s\<lparr>working := map (set_embedding i vec) (working s),
       results := None,
       calls := calls s @ [Update_Embedding i vec]\<rparr>"

text \<open>\<^verbatim>\<open>INSERT INTO resource_embeddings (resource_type, resource_id, resource_data,
  embedding) VALUES (%s, %s, %s, NULL) ON CONFLICT (resource_type, resource_id) DO
  NOTHING\<close> (lines 158 to 162). The payload goes in as \<^verbatim>\<open>json.dumps\<close> text and is stored
  as the JSON value it denotes. The sequence advances whether or not the row goes in.\<close>

definition conflict_key :: "'v row \<Rightarrow> string \<times> string" where
  "conflict_key r = (resource_type r, resource_id r)"

definition execute_insert :: "'v pg \<Rightarrow> string \<times> string \<times> pyval \<Rightarrow> 'v pg" where
  "execute_insert s sample =
     (case sample of (rtype, rid, rdata) \<Rightarrow>
        s\<lparr>working :=
            (if (rtype, rid) \<in> set (map conflict_key (working s)) then working s
             else working s @
               [\<lparr>row_id = serial s, resource_type = rtype, resource_id = rid,
                 resource_data = rdata, embedding = None\<rparr>]),
          serial := Suc (serial s),
          results := None,
          calls := calls s @ [Insert_Resource rtype rid rdata]\<rparr>)"

section \<open>The job\<close>

definition sample_resources :: "(string \<times> string \<times> pyval) list" where
  "sample_resources =
     [(''ec2_instance'', ''i-sample-1'',
        PDict [(''instance_type'', PStr ''t3.micro''), (''state'', PStr ''running''),
               (''environment'', PStr ''production''), (''team'', PStr ''backend''),
               (''region'', PStr ''us-east-1''), (''has_public_ip'', PBool True)]),
      (''ec2_instance'', ''i-sample-2'',
        PDict [(''instance_type'', PStr ''t3.small''), (''state'', PStr ''running''),
               (''environment'', PStr ''production''), (''team'', PStr ''data''),
               (''region'', PStr ''us-east-1''), (''has_public_ip'', PBool False)]),
      (''ec2_instance'', ''i-sample-3'',
        PDict [(''instance_type'', PStr ''t3.medium''), (''state'', PStr ''stopped''),
               (''environment'', PStr ''development''), (''team'', PStr ''frontend''),
               (''region'', PStr ''us-west-2''), (''has_public_ip'', PBool True)])]"

text \<open>
  \<^verbatim>\<open>create_sample_embeddings(self, cursor)\<close> (lines 126 to 165): the loop issues the three
  inserts on the caller's cursor; then line 164 evaluates \<^verbatim>\<open>conn.commit()\<close>. The name
  \<^verbatim>\<open>conn\<close> is neither a parameter nor a local of this method, nor a global of the module,
  nor a builtin, so the evaluation raises \<^verbatim>\<open>NameError\<close>. The inserts stay in the caller's
  open transaction.
\<close>

definition create_sample_embeddings :: "'v pg \<Rightarrow> (py_error + unit) \<times> 'v pg" where
  "create_sample_embeddings cursor = (Inl NameError, foldl execute_insert cursor sample_resources)"

text \<open>The three aggregates of the verification query (lines 171 to 177), each as SQL
  defines it: \<^verbatim>\<open>COUNT(*)\<close> counts rows, \<^verbatim>\<open>COUNT(e)\<close> counts the rows where \<^verbatim>\<open>e\<close> is not
  NULL, \<^verbatim>\<open>COUNT(*) FILTER (WHERE p)\<close> counts the rows where \<^verbatim>\<open>p\<close> is true.\<close>

definition sql_count_star :: "'r list \<Rightarrow> nat" where
  "sql_count_star rows = length rows"

primrec sql_count :: "('r \<Rightarrow> 'a option) \<Rightarrow> 'r list \<Rightarrow> nat" where
  "sql_count e [] = 0"
| "sql_count e (r # rows) = (case e r of None \<Rightarrow> sql_count e rows | Some x \<Rightarrow> Suc (sql_count e rows))"

definition sql_count_star_filter :: "('r \<Rightarrow> bool) \<Rightarrow> 'r list \<Rightarrow> nat" where
  "sql_count_star_filter p rows = length (filter p rows)"

definition embedding_is_not_null :: "'v row \<Rightarrow> bool" where
  "embedding_is_not_null r = (embedding r \<noteq> None)"

text \<open>What \<^verbatim>\<open>verify_embeddings\<close> logs: the three counts, whether it reports success
  (\<^verbatim>\<open>total > 0 and with_embeddings == total\<close>), and the type and id of the sample row of
  the second query (\<^verbatim>\<open>WHERE embedding IS NOT NULL LIMIT 1\<close>; the first such row in table
  order here).\<close>

record verification =
  total :: nat
  with_embeddings :: nat
  non_null :: nat
  all_verified :: bool
  sample :: "(string \<times> string) option"

definition verify_embeddings :: "'v pg \<Rightarrow> verification \<times> 'v pg" where
  "verify_embeddings cursor =
     (let t = sql_count_star (working cursor);
          w = sql_count embedding (working cursor);
          n = sql_count_star_filter embedding_is_not_null (working cursor);
          s1 = cursor\<lparr>results := Some [], calls := calls cursor @ [Count_Embeddings]\<rparr>;
          smp = map_option conflict_key (find embedding_is_not_null (working s1));
          s2 = s1\<lparr>results := Some [], calls := calls s1 @ [Sample_Embedding]\<rparr>
      in (\<lparr>total = t, with_embeddings = w, non_null = n,
           all_verified = (0 < t \<and> w = t), sample = smp\<rparr>, s2))"

text \<open>The \<^verbatim>\<open>for\<close> loop of \<^verbatim>\<open>update_embeddings\<close> (lines 91 to 108) over the fetched tuples:
  render, embed, update by id; the first exception leaves the loop.\<close>

fun process_resources ::
  "'v generator \<Rightarrow> (nat \<times> string \<times> string \<times> pyval) list \<Rightarrow> 'v pg \<Rightarrow> (py_error + unit) \<times> 'v pg" where
  "process_resources self [] cursor = (Inr (), cursor)"
| "process_resources self ((rid, rtype, rid_str, rdata) # resources) cursor =
     (case format_resource_text rdata of
        Inl e \<Rightarrow> (Inl e, cursor)
      | Inr text_content \<Rightarrow>
          (case get_embedding self text_content of
             Inl e \<Rightarrow> (Inl e, cursor)
           | Inr embedding_vector \<Rightarrow>
               process_resources self resources (execute_update embedding_vector rid cursor)))"

text \<open>The \<^verbatim>\<open>try\<close> block of \<^verbatim>\<open>update_embeddings\<close> after the connection is open (lines 71
  to 115).\<close>

definition update_body :: "'v generator \<Rightarrow> 'v pg \<Rightarrow> (py_error + unit) \<times> 'v pg" where
  "update_body self conn =
     (case fetchall (execute_select conn) of
        (Inl e, s1) \<Rightarrow> (Inl e, s1)
      | (Inr fetched, s1) \<Rightarrow>
          (case (if fetched = []
                 then (case create_sample_embeddings s1 of
                         (Inl e, s2) \<Rightarrow> (Inl e, s2)
                       | (Inr u, s2) \<Rightarrow> fetchall s2)
                 else (Inr fetched, s1)) of
             (Inl e, s2) \<Rightarrow> (Inl e, s2)
           | (Inr resources, s2) \<Rightarrow>
               (case process_resources self resources s2 of
                  (Inl e, s3) \<Rightarrow> (Inl e, s3)
                | (Inr u, s3) \<Rightarrow> (Inr (), snd (verify_embeddings (commit s3))))))"

text \<open>\<^verbatim>\<open>update_embeddings\<close> (lines 64 to 124). When \<^verbatim>\<open>psycopg2.connect\<close> raises, \<^verbatim>\<open>conn\<close> is
  still \<^verbatim>\<open>None\<close>: nothing is rolled back or closed. Otherwise the handler rolls back and
  raises again, and \<^verbatim>\<open>finally\<close> closes the connection on both paths.\<close>

definition update_embeddings :: "'v generator \<Rightarrow> 'v pg \<Rightarrow> (py_error + unit) \<times> 'v pg" where
  "update_embeddings self db =
     (case connect db of
        (Inl e, s0) \<Rightarrow> (Inl e, s0)
      | (Inr u, conn) \<Rightarrow>
          (case update_body self conn of
             (Inl e, s1) \<Rightarrow> (Inl e, close (rollback s1))
           | (Inr u, s1) \<Rightarrow> (Inr (), close s1)))"

text \<open>\<^verbatim>\<open>main\<close> (lines 209 to 234), as the exit status of the process and the state it
  leaves: \<^verbatim>\<open>sys.exit(1)\<close> on any exception, 0 when the function returns.\<close>

definition main :: "(py_error + (string \<Rightarrow> py_error + 'v)) \<Rightarrow> 'v pg \<Rightarrow> nat \<times> 'v pg" where
  "main hub db =
     (case load_model hub \<lparr>model = None\<rparr> of
        Inl e \<Rightarrow> (1, db)
      | Inr generator \<Rightarrow>
          (case update_embeddings generator db of
             (Inl e, db') \<Rightarrow> (1, db')
           | (Inr u, db') \<Rightarrow> (0, db')))"

section \<open>Vocabulary of the properties\<close>

text \<open>What one pass of the loop body computes for a payload: the rendered text, then its
  embedding.\<close>

definition embed_row :: "'v generator \<Rightarrow> pyval \<Rightarrow> py_error + 'v" where
  "embed_row self rdata =
     (case format_resource_text rdata of Inl e \<Rightarrow> Inl e | Inr t \<Rightarrow> get_embedding self t)"

definition embeds :: "'v generator \<Rightarrow> nat \<times> string \<times> string \<times> pyval \<Rightarrow> bool" where
  "embeds self tuple = (case tuple of (i, rtype, rid, rdata) \<Rightarrow> \<not> isl (embed_row self rdata))"

text \<open>The \<^verbatim>\<open>UPDATE\<close> the loop issues for a fetched tuple, and what it does to the table.\<close>

definition update_call :: "'v generator \<Rightarrow> nat \<times> string \<times> string \<times> pyval \<Rightarrow> 'v call" where
  "update_call self tuple =
     (case tuple of (i, rtype, rid, rdata) \<Rightarrow> Update_Embedding i (projr (embed_row self rdata)))"

definition apply_update ::
  "'v generator \<Rightarrow> 'v row list \<Rightarrow> nat \<times> string \<times> string \<times> pyval \<Rightarrow> 'v row list" where
  "apply_update self rows tuple =
     (case tuple of (i, rtype, rid, rdata) \<Rightarrow>
        map (set_embedding i (projr (embed_row self rdata))) rows)"

definition step_row ::
  "'v generator \<Rightarrow> 'v row \<Rightarrow> nat \<times> string \<times> string \<times> pyval \<Rightarrow> 'v row" where
  "step_row self r tuple =
     (case tuple of (i, rtype, rid, rdata) \<Rightarrow> set_embedding i (projr (embed_row self rdata)) r)"

text \<open>A row with its embedding replaced by the embedding of its own payload.\<close>

definition rewritten :: "'v generator \<Rightarrow> 'v row \<Rightarrow> 'v row" where
  "rewritten self r = r\<lparr>embedding := Some (projr (embed_row self (resource_data r)))\<rparr>"

fun is_update :: "'v call \<Rightarrow> bool" where
  "is_update (Update_Embedding i v) = True"
| "is_update c = False"

definition sample_key :: "string \<times> string \<times> pyval \<Rightarrow> string \<times> string" where
  "sample_key x = (case x of (rtype, rid, rdata) \<Rightarrow> (rtype, rid))"

definition insert_call :: "string \<times> string \<times> pyval \<Rightarrow> 'v call" where
  "insert_call x = (case x of (rtype, rid, rdata) \<Rightarrow> Insert_Resource rtype rid rdata)"

text \<open>The tuples the \<^verbatim>\<open>SELECT\<close> returns on a fresh connection.\<close>

definition fetched_of :: "'v pg \<Rightarrow> (nat \<times> string \<times> string \<times> pyval) list" where
  "fetched_of db = map select_columns (sort_key row_id (committed db))"

definition lacks_embedding :: "'v row \<Rightarrow> bool" where
  "lacks_embedding r = (embedding r = None)"

section \<open>Example runs\<close>

text \<open>A stand-in model whose vector for a text is its length, and one that raises on
  the text of the second payload below.\<close>

definition toy_encode :: "string \<Rightarrow> py_error + nat list" where
  "toy_encode text_content = Inr [length text_content]"

definition payload_a :: pyval where
  "payload_a = PDict [(''instance_type'', PStr ''t3.micro''), (''state'', PStr ''running'')]"

definition payload_b :: pyval where
  "payload_b = PDict [(''instance_type'', PStr ''t3.small''), (''has_public_ip'', PBool True)]"

definition payload_c :: pyval where
  "payload_c = PDict [(''team'', PStr ''data'')]"

definition picky_encode :: "string \<Rightarrow> py_error + nat list" where
  "picky_encode text_content =
     (if text_content = projr (format_resource_text payload_b)
      then Inl (OtherError ''encode failed'')
      else Inr [length text_content])"

text \<open>An empty table; a table of three rows without embeddings, stored in the order 2,
  1, 3; and a table whose first row already has an embedding.\<close>

definition empty_db :: "nat list pg" where
  "empty_db =
     \<lparr>reachable = True, committed = [], serial = 1, working = [], results = None, calls = []\<rparr>"

definition three_rows :: "nat list row list" where
  "three_rows =
     [\<lparr>row_id = 2, resource_type = ''ec2_instance'', resource_id = ''i-b'',
       resource_data = payload_b, embedding = None\<rparr>,
      \<lparr>row_id = 1, resource_type = ''ec2_instance'', resource_id = ''i-a'',
       resource_data = payload_a, embedding = None\<rparr>,
      \<lparr>row_id = 3, resource_type = ''ec2_instance'', resource_id = ''i-c'',
       resource_data = payload_c, embedding = None\<rparr>]"

definition three_db :: "nat list pg" where
  "three_db =
     \<lparr>reachable = True, committed = three_rows, serial = 4, working = [], results = None,
      calls = []\<rparr>"

definition stale_db :: "nat list pg" where
  "stale_db =
     \<lparr>reachable = True,
      committed =
        [\<lparr>row_id = 1, resource_type = ''ec2_instance'', resource_id = ''i-a'',
          resource_data = payload_a, embedding = Some [0, 0, 0]\<rparr>,
         \<lparr>row_id = 2, resource_type = ''ec2_instance'', resource_id = ''i-c'',
          resource_data = payload_c, embedding = None\<rparr>],
      serial = 3, working = [], results = None, calls = []\<rparr>"

definition partly_seeded :: "nat list pg" where
  "partly_seeded =
     \<lparr>reachable = True, committed = [], serial = 8,
      working =
        [\<lparr>row_id = 7, resource_type = ''ec2_instance'', resource_id = ''i-sample-2'',
          resource_data = payload_b, embedding = None\<rparr>],
      results = None, calls = []\<rparr>"

section \<open>Properties of the text renderer\<close>

lemma py_strip_id:
  assumes "s \<noteq> []" and "\<not> is_space (hd s)" and "\<not> is_space (last s)"
  shows "py_strip s = s"
proof -
  from assms(1,2) have front: "dropWhile is_space s = s"
    by (cases s) simp_all
  from assms(1,3) have rear: "dropWhile is_space (rev s) = rev s"
    by (cases s rule: rev_cases) simp_all
  show ?thesis by (simp add: py_strip_def front rear)
qed

lemma str_field:
  "py_str (dict_get d k (PStr ''Unknown'')) =
     (case map_of d k of None \<Rightarrow> ''Unknown'' | Some v \<Rightarrow> py_str v)"
  by (simp add: dict_get_def py_str_def split: option.split)

lemma flag_field:
  "(if truthy (dict_get d k PNone) then ''Yes'' else ''No'') =
     (case map_of d k of None \<Rightarrow> ''No'' | Some v \<Rightarrow> if truthy v then ''Yes'' else ''No'')"
  by (simp add: dict_get_def truthy_def split: option.split)

text \<open>The rendered text starts with \<open>E\<close> and ends with \<open>s\<close> or \<open>o\<close>, so \<^verbatim>\<open>strip()\<close> removes
  nothing, whatever the fields hold.\<close>

lemma strip_template:
  "py_strip (''EC2 Instance Configuration:\<newline>Instance Type: '' @ a
             @ ''\<newline>Public IP: '' @ (if b then ''Yes'' else ''No''))
   = ''EC2 Instance Configuration:\<newline>Instance Type: '' @ a
       @ ''\<newline>Public IP: '' @ (if b then ''Yes'' else ''No'')"
  by (rule py_strip_id) (simp_all add: is_space_def)

lemma format_body_dict:
  "format_body (PDict d) =
     Inr (''EC2 Instance Configuration:\<newline>Instance Type: ''
          @ (py_str (dict_get d ''instance_type'' (PStr ''Unknown''))
             @ ''\<newline>State: '' @ py_str (dict_get d ''state'' (PStr ''Unknown''))
             @ ''\<newline>Environment: '' @ py_str (dict_get d ''environment'' (PStr ''Unknown''))
             @ ''\<newline>Team: '' @ py_str (dict_get d ''team'' (PStr ''Unknown''))
             @ ''\<newline>Region: '' @ py_str (dict_get d ''region'' (PStr ''Unknown'')))
          @ ''\<newline>Public IP: ''
          @ (if truthy (dict_get d ''has_public_ip'' PNone) then ''Yes'' else ''No''))"
proof -
  have "format_body (PDict d) =
     Inr (py_strip (''EC2 Instance Configuration:\<newline>Instance Type: ''
          @ (py_str (dict_get d ''instance_type'' (PStr ''Unknown''))
             @ ''\<newline>State: '' @ py_str (dict_get d ''state'' (PStr ''Unknown''))
             @ ''\<newline>Environment: '' @ py_str (dict_get d ''environment'' (PStr ''Unknown''))
             @ ''\<newline>Team: '' @ py_str (dict_get d ''team'' (PStr ''Unknown''))
             @ ''\<newline>Region: '' @ py_str (dict_get d ''region'' (PStr ''Unknown'')))
          @ ''\<newline>Public IP: ''
          @ (if truthy (dict_get d ''has_public_ip'' PNone) then ''Yes'' else ''No'')))"
    by (simp add: format_body_def)
  then show ?thesis
    unfolding strip_template .
qed

text \<open>
  \<^bold>\<open>C4.\<close> For a payload that is a mapping, \<^verbatim>\<open>format_resource_text\<close> returns the heading and
  the six labelled lines in the fixed order Instance Type, State, Environment, Team,
  Region, Public IP. A field that is present renders as the \<^verbatim>\<open>str\<close> of its value, a missing
  one as \<^verbatim>\<open>Unknown\<close>; the reachability flag renders as \<^verbatim>\<open>Yes\<close> when present and true, and
  as \<^verbatim>\<open>No\<close> when absent or false.
\<close>

theorem format_resource_text_fields:
  "format_resource_text (PDict d) =
     Inr (''EC2 Instance Configuration:\<newline>Instance Type: ''
          @ (case map_of d ''instance_type'' of None \<Rightarrow> ''Unknown'' | Some v \<Rightarrow> py_str v)
          @ ''\<newline>State: ''
          @ (case map_of d ''state'' of None \<Rightarrow> ''Unknown'' | Some v \<Rightarrow> py_str v)
          @ ''\<newline>Environment: ''
          @ (case map_of d ''environment'' of None \<Rightarrow> ''Unknown'' | Some v \<Rightarrow> py_str v)
          @ ''\<newline>Team: ''
          @ (case map_of d ''team'' of None \<Rightarrow> ''Unknown'' | Some v \<Rightarrow> py_str v)
          @ ''\<newline>Region: ''
          @ (case map_of d ''region'' of None \<Rightarrow> ''Unknown'' | Some v \<Rightarrow> py_str v)
          @ ''\<newline>Public IP: ''
          @ (case map_of d ''has_public_ip'' of None \<Rightarrow> ''No''
             | Some v \<Rightarrow> if truthy v then ''Yes'' else ''No''))"
  unfolding format_resource_text_def format_body_dict
  by (simp add: str_field flag_field)

text \<open>The theorem at two payloads: all six fields present, and only two present (with a
  false flag).\<close>

theorem format_resource_text_fields_witness:
  "format_resource_text
     (PDict [(''instance_type'', PStr ''t3.micro''), (''state'', PStr ''running''),
             (''environment'', PStr ''production''), (''team'', PStr ''backend''),
             (''region'', PStr ''us-east-1''), (''has_public_ip'', PBool True)])
   = Inr ''EC2 Instance Configuration:\<newline>Instance Type: t3.micro\<newline>State: running\<newline>Environment: production\<newline>Team: backend\<newline>Region: us-east-1\<newline>Public IP: Yes''
   \<and> format_resource_text (PDict [(''state'', PStr ''stopped''), (''has_public_ip'', PBool False)])
   = Inr ''EC2 Instance Configuration:\<newline>Instance Type: Unknown\<newline>State: stopped\<newline>Environment: Unknown\<newline>Team: Unknown\<newline>Region: Unknown\<newline>Public IP: No''"
  using format_resource_text_fields
          [of "[(''instance_type'', PStr ''t3.micro''), (''state'', PStr ''running''),
                (''environment'', PStr ''production''), (''team'', PStr ''backend''),
                (''region'', PStr ''us-east-1''), (''has_public_ip'', PBool True)]"]
        format_resource_text_fields
          [of "[(''state'', PStr ''stopped''), (''has_public_ip'', PBool False)]"]
  by (simp add: py_str_def truthy_def)



section \<open>Properties of the verification query\<close>

lemma sql_counts_agree:
  "sql_count embedding rows = sql_count_star_filter embedding_is_not_null rows"
  by (induction rows)
     (simp_all add: sql_count_star_filter_def embedding_is_not_null_def split: option.split)

text \<open>
  \<^bold>\<open>C7.\<close> In the verification query of \<^verbatim>\<open>verify_embeddings\<close> the count \<^verbatim>\<open>COUNT(embedding)\<close>
  (\<open>with_embeddings\<close>) and the count \<^verbatim>\<open>COUNT(*) FILTER (WHERE embedding IS NOT NULL)\<close>
  (\<open>non_null\<close>) are equal on every table.
\<close>

theorem verify_counts_equal:
  "with_embeddings (fst (verify_embeddings cursor)) = sql_count embedding (working cursor)
   \<and> non_null (fst (verify_embeddings cursor))
       = sql_count_star_filter embedding_is_not_null (working cursor)
   \<and> with_embeddings (fst (verify_embeddings cursor)) = non_null (fst (verify_embeddings cursor))"
  by (simp add: verify_embeddings_def Let_def sql_counts_agree)

theorem verify_counts_equal_witness:
  "with_embeddings (fst (verify_embeddings (snd (connect stale_db)))) = 1
   \<and> non_null (fst (verify_embeddings (snd (connect stale_db)))) = 1
   \<and> total (fst (verify_embeddings (snd (connect stale_db)))) = 2"
proof -
  have "sql_count embedding (working (snd (connect stale_db))) = 1"
    by code_simp
  moreover have "total (fst (verify_embeddings (snd (connect stale_db)))) = 2"
    by code_simp
  ultimately show ?thesis
    using verify_counts_equal [of "snd (connect stale_db)"] by simp
qed

section \<open>Properties of the seeding step\<close>

lemma execute_insert_present:
  "sample_key x \<in> conflict_key ` set (working s) \<Longrightarrow> working (execute_insert s x) = working s"
  by (cases x) (simp add: execute_insert_def sample_key_def)

lemma execute_insert_keys:
  "conflict_key ` set (working (execute_insert s x)) =
     insert (sample_key x) (conflict_key ` set (working s))"
  by (cases x) (auto simp: execute_insert_def sample_key_def conflict_key_def)

lemma execute_insert_distinct:
  "distinct (map conflict_key (working s)) \<Longrightarrow>
     distinct (map conflict_key (working (execute_insert s x)))"
  by (cases x) (auto simp: execute_insert_def conflict_key_def)

lemma execute_insert_frame:
  "committed (execute_insert s x) = committed s \<and> reachable (execute_insert s x) = reachable s
   \<and> calls (execute_insert s x) = calls s @ [insert_call x]
   \<and> serial (execute_insert s x) = Suc (serial s)"
  by (cases x) (simp add: execute_insert_def insert_call_def)

lemma foldl_insert_keys:
  "conflict_key ` set (working (foldl execute_insert s xs)) =
     conflict_key ` set (working s) \<union> sample_key ` set xs"
  by (induction xs arbitrary: s) (auto simp: execute_insert_keys)

lemma foldl_insert_noop:
  "sample_key ` set xs \<subseteq> conflict_key ` set (working s) \<Longrightarrow>
     working (foldl execute_insert s xs) = working s"
proof (induction xs arbitrary: s)
  case Nil
  then show ?case by simp
next
  case (Cons x xs)
  then have here: "working (execute_insert s x) = working s"
    by (simp add: execute_insert_present)
  with Cons.prems have "sample_key ` set xs \<subseteq> conflict_key ` set (working (execute_insert s x))"
    by simp
  from Cons.IH [OF this] here show ?case by simp
qed

lemma foldl_insert_distinct:
  "distinct (map conflict_key (working s)) \<Longrightarrow>
     distinct (map conflict_key (working (foldl execute_insert s xs)))"
  by (induction xs arbitrary: s) (simp_all add: execute_insert_distinct)

lemma foldl_insert_frame:
  "committed (foldl execute_insert s xs) = committed s
   \<and> calls (foldl execute_insert s xs) = calls s @ map insert_call xs
   \<and> serial (foldl execute_insert s xs) = serial s + length xs"
  by (induction xs arbitrary: s) (simp_all add: execute_insert_frame)

text \<open>
  \<^bold>\<open>C6.\<close> Seeding is idempotent on the table: after \<^verbatim>\<open>create_sample_embeddings\<close> has run
  twice on the same cursor the table the transaction sees is the one it saw after the
  first run, and the committed table is untouched by either run. Given the unique
  constraint on \<^verbatim>\<open>(resource_type, resource_id)\<close> before the run, no two rows share such a
  pair after one run or after two.
\<close>

theorem create_sample_embeddings_idempotent:
  "working (snd (create_sample_embeddings (snd (create_sample_embeddings cursor))))
     = working (snd (create_sample_embeddings cursor))
   \<and> committed (snd (create_sample_embeddings (snd (create_sample_embeddings cursor))))
     = committed (snd (create_sample_embeddings cursor))
   \<and> (distinct (map conflict_key (working cursor)) \<longrightarrow>
        distinct (map conflict_key (working (snd (create_sample_embeddings cursor))))
        \<and> distinct (map conflict_key
             (working (snd (create_sample_embeddings (snd (create_sample_embeddings cursor)))))))"
proof -
  let ?once = "foldl execute_insert cursor sample_resources"
  have "sample_key ` set sample_resources \<subseteq> conflict_key ` set (working ?once)"
    by (simp add: foldl_insert_keys)
  then have "working (foldl execute_insert ?once sample_resources) = working ?once"
    by (rule foldl_insert_noop)
  then show ?thesis
    by (simp add: create_sample_embeddings_def foldl_insert_distinct foldl_insert_frame)
qed

text \<open>The theorem on a table that already holds a row for \<^verbatim>\<open>i-sample-2\<close>: the first run
  adds the two other samples, the second adds nothing.\<close>

theorem create_sample_embeddings_idempotent_witness:
  "distinct (map conflict_key (working partly_seeded))
   \<and> map conflict_key (working (snd (create_sample_embeddings partly_seeded)))
       = [(''ec2_instance'', ''i-sample-2''), (''ec2_instance'', ''i-sample-1''),
          (''ec2_instance'', ''i-sample-3'')]
   \<and> working (snd (create_sample_embeddings (snd (create_sample_embeddings partly_seeded))))
       = working (snd (create_sample_embeddings partly_seeded))
   \<and> distinct (map conflict_key
        (working (snd (create_sample_embeddings (snd (create_sample_embeddings partly_seeded))))))"
proof -
  have start: "distinct (map conflict_key (working partly_seeded))"
    by code_simp
  have once: "map conflict_key (working (snd (create_sample_embeddings partly_seeded)))
       = [(''ec2_instance'', ''i-sample-2''), (''ec2_instance'', ''i-sample-1''),
          (''ec2_instance'', ''i-sample-3'')]"
    by code_simp
  from create_sample_embeddings_idempotent [of partly_seeded] start once
  show ?thesis by simp
qed

section \<open>Properties of the loop\<close>

lemma process_resources_Cons:
  "process_resources self ((i, rtype, rid, rdata) # rs) s =
     (case embed_row self rdata of
        Inl e \<Rightarrow> (Inl e, s)
      | Inr v \<Rightarrow> process_resources self rs (execute_update v i s))"
  by (simp add: embed_row_def split: sum.splits)

lemma process_resources_frame:
  "process_resources self rs s = (res, s') \<Longrightarrow>
     committed s' = committed s \<and> serial s' = serial s \<and> reachable s' = reachable s"
proof (induction rs arbitrary: s)
  case Nil
  then show ?case by simp
next
  case (Cons t rs)
  obtain i rtype rid rdata where t: "t = (i, rtype, rid, rdata)" by (cases t) auto
  show ?case
  proof (cases "embed_row self rdata")
    case (Inl e)
    with Cons.prems t show ?thesis
      by (simp add: process_resources_Cons del: process_resources.simps)
  next
    case (Inr v)
    with Cons.prems t have "process_resources self rs (execute_update v i s) = (res, s')"
      by (simp add: process_resources_Cons del: process_resources.simps)
    from Cons.IH [OF this] show ?thesis by (simp add: execute_update_def)
  qed
qed

text \<open>A loop that raises has issued fewer updates than there are tuples, and nothing
  else.\<close>

lemma process_resources_failure:
  "process_resources self rs s = (Inl e, s') \<Longrightarrow>
     \<exists>us. calls s' = calls s @ us \<and> list_all is_update us \<and> length us < length rs"
proof (induction rs arbitrary: s)
  case Nil
  then show ?case by simp
next
  case (Cons t rs)
  obtain i rtype rid rdata where t: "t = (i, rtype, rid, rdata)" by (cases t) auto
  show ?case
  proof (cases "embed_row self rdata")
    case (Inl e')
    with Cons.prems t show ?thesis
      by (simp add: process_resources_Cons del: process_resources.simps)
  next
    case (Inr v)
    with Cons.prems t have "process_resources self rs (execute_update v i s) = (Inl e, s')"
      by (simp add: process_resources_Cons del: process_resources.simps)
    from Cons.IH [OF this] obtain us where
      "calls s' = calls (execute_update v i s) @ us" "list_all is_update us" "length us < length rs"
      by blast
    then have "calls s' = calls s @ (Update_Embedding i v # us) \<and>
        list_all is_update (Update_Embedding i v # us) \<and>
        length (Update_Embedding i v # us) < length (t # rs)"
      by (simp add: execute_update_def)
    then show ?thesis by blast
  qed
qed

text \<open>A loop that returns has embedded every tuple and issued one update per tuple, in
  the order of the list.\<close>

lemma process_resources_success:
  "process_resources self rs s = (Inr u, s') \<Longrightarrow>
     list_all (embeds self) rs \<and>
     calls s' = calls s @ map (update_call self) rs \<and>
     working s' = foldl (apply_update self) (working s) rs"
proof (induction rs arbitrary: s)
  case Nil
  then show ?case by simp
next
  case (Cons t rs)
  obtain i rtype rid rdata where t: "t = (i, rtype, rid, rdata)" by (cases t) auto
  show ?case
  proof (cases "embed_row self rdata")
    case (Inl e)
    with Cons.prems t show ?thesis
      by (simp add: process_resources_Cons del: process_resources.simps)
  next
    case (Inr v)
    with Cons.prems t have "process_resources self rs (execute_update v i s) = (Inr u, s')"
      by (simp add: process_resources_Cons del: process_resources.simps)
    from Cons.IH [OF this] show ?thesis
      using t Inr by (simp add: execute_update_def update_call_def apply_update_def embeds_def)
  qed
qed

lemma process_resources_all_ok:
  "list_all (embeds self) rs \<Longrightarrow> \<exists>s'. process_resources self rs s = (Inr (), s')"
proof (induction rs arbitrary: s)
  case Nil
  then show ?case by simp
next
  case (Cons t rs)
  obtain i rtype rid rdata where t: "t = (i, rtype, rid, rdata)" by (cases t) auto
  with Cons.prems obtain v where v: "embed_row self rdata = Inr v"
    by (cases "embed_row self rdata") (auto simp: embeds_def)
  from Cons.prems have "list_all (embeds self) rs"
    by simp
  from Cons.IH [OF this] show ?case
    using t v by (simp add: process_resources_Cons del: process_resources.simps)
qed

lemma process_resources_embeds:
  "(\<exists>s'. process_resources self rs s = (Inr (), s')) \<longleftrightarrow> list_all (embeds self) rs"
  using process_resources_success process_resources_all_ok by blast

lemma connect_ok:
  "connect db = (Inr u, conn) \<Longrightarrow>
     reachable db \<and> conn = db\<lparr>working := committed db, results := None\<rparr>"
  by (auto simp: connect_def split: if_splits)

lemma fetch_after_select:
  "fetchall (execute_select conn) =
     (Inr (map select_columns (sort_key row_id (working conn))),
      conn\<lparr>results := Some [], calls := calls conn @ [Select_Resources]\<rparr>)"
  by (simp add: fetchall_def execute_select_def)


text \<open>
  \<^bold>\<open>C1.\<close> When the loop of \<^verbatim>\<open>update_embeddings\<close> raises \<open>e\<close> (the connection is open, the
  fetch has returned the tuples \<open>resources\<close>, and processing them raises), the handler
  rolls the transaction back, the connection is closed, and \<open>e\<close> is what the caller
  gets. The committed table is the one before the run, the transaction's view is back
  to it, and the calls of the run are the select, fewer updates than tuples, then
  \<open>Rollback\<close> and \<open>Close\<close>: no \<open>Commit\<close>.
\<close>

theorem loop_exception_rolls_back:
  assumes "connect db = (Inr (), conn)"
      and "fetchall (execute_select conn) = (Inr resources, s1)"
      and "resources \<noteq> []"
      and "process_resources self resources s1 = (Inl e, s2)"
  shows "update_embeddings self db = (Inl e, close (rollback s2))
       \<and> committed (close (rollback s2)) = committed db
       \<and> working (close (rollback s2)) = committed db
       \<and> (\<exists>us. list_all is_update us \<and> length us < length resources
             \<and> calls (close (rollback s2)) = calls db @ Select_Resources # us @ [Rollback, Close])"
proof -
  from assms(1) have conn: "committed conn = committed db" "calls conn = calls db"
    by (auto simp: connect_def split: if_splits)
  from assms(2) have s1: "committed s1 = committed conn" "calls s1 = calls conn @ [Select_Resources]"
    by (auto simp: fetchall_def execute_select_def split: option.splits)
  from process_resources_frame [OF assms(4)] have s2: "committed s2 = committed s1"
    by simp
  from process_resources_failure [OF assms(4)] obtain us where
    us: "calls s2 = calls s1 @ us" "list_all is_update us" "length us < length resources"
    by blast
  have run: "update_embeddings self db = (Inl e, close (rollback s2))"
    using assms by (simp add: update_embeddings_def update_body_def)
  have "calls (close (rollback s2)) = calls db @ Select_Resources # us @ [Rollback, Close]"
    using us(1) s1 conn by (simp add: close_def rollback_def)
  with us(2,3) have "\<exists>us. list_all is_update us \<and> length us < length resources
             \<and> calls (close (rollback s2)) = calls db @ Select_Resources # us @ [Rollback, Close]"
    by blast
  moreover have "committed (close (rollback s2)) = committed db"
    using s2 s1 conn by (simp add: close_def rollback_def)
  moreover have "working (close (rollback s2)) = committed db"
    using s2 s1 conn by (simp add: close_def rollback_def)
  ultimately show ?thesis using run by blast
qed

text \<open>The theorem on three rows without embeddings, with a model that raises on the
  text of the second row in id order: the first row's update is issued and rolled back,
  and no row of the committed table has an embedding afterwards.\<close>

theorem loop_exception_rolls_back_witness:
  "map fst (fetched_of three_db) = [1, 2, 3]
   \<and> embed_row \<lparr>model = Some picky_encode\<rparr> payload_a = Inr [131]
   \<and> embed_row \<lparr>model = Some picky_encode\<rparr> payload_b = Inl (OtherError ''encode failed'')
   \<and> fst (update_embeddings \<lparr>model = Some picky_encode\<rparr> three_db) = Inl (OtherError ''encode failed'')
   \<and> committed (snd (update_embeddings \<lparr>model = Some picky_encode\<rparr> three_db)) = three_rows
   \<and> list_all lacks_embedding (committed (snd (update_embeddings \<lparr>model = Some picky_encode\<rparr> three_db)))
   \<and> calls (snd (update_embeddings \<lparr>model = Some picky_encode\<rparr> three_db))
       = [Select_Resources, Update_Embedding 1 [131], Rollback, Close]"
proof -
  let ?g = "\<lparr>model = Some picky_encode\<rparr>"
  let ?conn = "snd (connect three_db)"
  let ?s1 = "snd (fetchall (execute_select ?conn))"
  let ?s2 = "snd (process_resources ?g (fetched_of three_db) ?s1)"
  have a: "connect three_db = (Inr (), ?conn)"
    by code_simp
  have b: "fetchall (execute_select ?conn) = (Inr (fetched_of three_db), ?s1)"
    by code_simp
  have c: "fetched_of three_db \<noteq> []"
    by code_simp
  have "fst (process_resources ?g (fetched_of three_db) ?s1) = Inl (OtherError ''encode failed'')"
    by code_simp
  then have d: "process_resources ?g (fetched_of three_db) ?s1 = (Inl (OtherError ''encode failed''), ?s2)"
    by (simp add: prod_eq_iff)
  have e: "calls (close (rollback ?s2)) = [Select_Resources, Update_Embedding 1 [131], Rollback, Close]"
    by code_simp
  have f: "committed three_db = three_rows" "list_all lacks_embedding three_rows"
    "map fst (fetched_of three_db) = [1, 2, 3]"
    "embed_row ?g payload_a = Inr [131]"
    "embed_row ?g payload_b = Inl (OtherError ''encode failed'')"
    by code_simp+
  from loop_exception_rolls_back [OF a b c d] e f show ?thesis
    by simp
qed



section \<open>Properties of a whole run\<close>

lemma fetched_of_empty: "fetched_of db = [] \<longleftrightarrow> committed db = []"
proof -
  have "length (fetched_of db) = length (committed db)"
    by (simp add: fetched_of_def)
  then show ?thesis by (metis length_0_conv)
qed

lemma verify_embeddings_frame:
  "committed (snd (verify_embeddings s)) = committed s
   \<and> working (snd (verify_embeddings s)) = working s
   \<and> calls (snd (verify_embeddings s)) = calls s @ [Count_Embeddings, Sample_Embedding]"
  by (simp add: verify_embeddings_def Let_def)

lemma update_embeddings_unreachable:
  "\<not> reachable db \<Longrightarrow> update_embeddings self db = (Inl OperationalError, db)"
  by (simp add: update_embeddings_def connect_def)

text \<open>On an empty table the run is the select, the three inserts, the \<^verbatim>\<open>NameError\<close>, the
  rollback and the close.\<close>

lemma update_embeddings_empty:
  assumes "reachable db" and "committed db = []"
  shows "update_embeddings self db =
     (Inl NameError,
      close (rollback (foldl execute_insert
        (db\<lparr>working := [], results := Some [], calls := calls db @ [Select_Resources]\<rparr>)
        sample_resources)))"
  using assms
  by (simp add: update_embeddings_def connect_def update_body_def fetch_after_select
        create_sample_embeddings_def)

lemma update_embeddings_reachable:
  assumes "reachable db" and "committed db \<noteq> []"
  shows "update_embeddings self db =
     (case process_resources self (fetched_of db)
             (db\<lparr>working := committed db, results := Some [],
                 calls := calls db @ [Select_Resources]\<rparr>) of
        (Inl e, s3) \<Rightarrow> (Inl e, close (rollback s3))
      | (Inr u, s3) \<Rightarrow> (Inr (), close (snd (verify_embeddings (commit s3)))))"
proof -
  have ne: "map select_columns (sort_key row_id (committed db)) \<noteq> []"
    using assms(2) fetched_of_empty [of db] by (simp add: fetched_of_def)
  show ?thesis
    using assms(1) ne
    by (simp add: update_embeddings_def connect_def update_body_def fetch_after_select
          fetched_of_def split: prod.splits sum.splits)
qed

lemma update_embeddings_returns_iff:
  "(\<exists>db'. update_embeddings self db = (Inr (), db')) \<longleftrightarrow>
     reachable db \<and> committed db \<noteq> [] \<and> list_all (embeds self) (fetched_of db)"
proof (cases "reachable db")
  case False
  then show ?thesis by (simp add: update_embeddings_unreachable)
next
  case True
  show ?thesis
  proof (cases "committed db = []")
    case True
    with \<open>reachable db\<close> show ?thesis by (simp add: update_embeddings_empty)
  next
    case False
    let ?s = "db\<lparr>working := committed db, results := Some [],
                  calls := calls db @ [Select_Resources]\<rparr>"
    have "(\<exists>db'. update_embeddings self db = (Inr (), db')) \<longleftrightarrow>
          (\<exists>s'. process_resources self (fetched_of db) ?s = (Inr (), s'))"
      by (simp add: update_embeddings_reachable [OF True False] split: prod.splits sum.splits)
    with True False show ?thesis by (simp add: process_resources_embeds)
  qed
qed

lemma update_embeddings_success:
  assumes "update_embeddings self db = (Inr u, db')"
  shows "committed db' = foldl (apply_update self) (committed db) (fetched_of db)
       \<and> working db' = committed db'
       \<and> calls db' = calls db @ Select_Resources # map (update_call self) (fetched_of db)
            @ [Commit, Count_Embeddings, Sample_Embedding, Close]"
proof -
  from assms have "\<exists>db'. update_embeddings self db = (Inr (), db')" by simp
  then have r: "reachable db" and ne: "committed db \<noteq> []"
    by (simp_all add: update_embeddings_returns_iff)
  let ?s = "db\<lparr>working := committed db, results := Some [],
                calls := calls db @ [Select_Resources]\<rparr>"
  from assms obtain s3 where loop: "process_resources self (fetched_of db) ?s = (Inr (), s3)"
    and db': "db' = close (snd (verify_embeddings (commit s3)))"
    by (auto simp: update_embeddings_reachable [OF r ne] split: prod.splits sum.splits)
  from process_resources_success [OF loop]
  have "calls s3 = calls ?s @ map (update_call self) (fetched_of db)"
    and "working s3 = foldl (apply_update self) (working ?s) (fetched_of db)"
    by simp_all
  then show ?thesis
    by (simp add: db' close_def commit_def verify_embeddings_frame)
qed

text \<open>The table after the updates of all its own rows: row by row.\<close>

lemma foldl_apply_update_rows:
  "foldl (apply_update self) rows ts = map (\<lambda>r. foldl (step_row self) r ts) rows"
  by (induction ts arbitrary: rows) (auto simp: apply_update_def step_row_def)

lemma foldl_step_row_shape:
  "\<exists>x. foldl (step_row self) r ts = r\<lparr>embedding := x\<rparr>"
proof (induction ts rule: rev_induct)
  case Nil
  have "r = r\<lparr>embedding := embedding r\<rparr>" by simp
  then show ?case by (metis foldl_Nil)
next
  case (snoc t ts)
  then obtain x where x: "foldl (step_row self) r ts = r\<lparr>embedding := x\<rparr>" by blast
  obtain i rtype rid rdata where t: "t = (i, rtype, rid, rdata)" by (cases t) auto
  have unfold: "foldl (step_row self) r (ts @ [t]) = step_row self (r\<lparr>embedding := x\<rparr>) t"
    by (simp add: x)
  show ?case
  proof (cases "row_id r = i")
    case True
    then have "step_row self (r\<lparr>embedding := x\<rparr>) t
        = r\<lparr>embedding := Some (projr (embed_row self rdata))\<rparr>"
      by (simp add: t step_row_def set_embedding_def)
    with unfold show ?thesis by metis
  next
    case False
    then have "step_row self (r\<lparr>embedding := x\<rparr>) t = r\<lparr>embedding := x\<rparr>"
      by (simp add: t step_row_def set_embedding_def)
    with unfold show ?thesis by metis
  qed
qed

lemma foldl_step_row_some:
  "t \<in> set ts \<Longrightarrow> fst t = row_id r \<Longrightarrow> embedding (foldl (step_row self) r ts) \<noteq> None"
proof (induction ts rule: rev_induct)
  case Nil
  then show ?case by simp
next
  case (snoc t' ts)
  obtain x where x: "foldl (step_row self) r ts = r\<lparr>embedding := x\<rparr>"
    using foldl_step_row_shape by blast
  have unfold: "foldl (step_row self) r (ts @ [t']) = step_row self (r\<lparr>embedding := x\<rparr>) t'"
    by (simp add: x)
  show ?case
  proof (cases "fst t' = row_id r")
    case True
    then have "embedding (step_row self (r\<lparr>embedding := x\<rparr>) t') \<noteq> None"
      by (cases t') (simp add: step_row_def set_embedding_def)
    with unfold show ?thesis by simp
  next
    case False
    with snoc.prems have "t \<in> set ts" by auto
    with snoc.IH snoc.prems(2) have "embedding (foldl (step_row self) r ts) \<noteq> None" by simp
    moreover from False have "step_row self (r\<lparr>embedding := x\<rparr>) t' = r\<lparr>embedding := x\<rparr>"
      by (cases t') (simp add: step_row_def set_embedding_def)
    ultimately show ?thesis by (simp add: unfold x)
  qed
qed

lemma foldl_step_row_own:
  assumes "select_columns r \<in> set ts"
      and "\<And>t. t \<in> set ts \<Longrightarrow> fst t = row_id r \<Longrightarrow> t = select_columns r"
  shows "foldl (step_row self) r ts = rewritten self r"
  using assms
proof (induction ts rule: rev_induct)
  case Nil
  then show ?case by simp
next
  case (snoc t ts)
  obtain x where x: "foldl (step_row self) r ts = r\<lparr>embedding := x\<rparr>"
    using foldl_step_row_shape by blast
  show ?case
  proof (cases "fst t = row_id r")
    case True
    with snoc.prems(2) have t: "t = select_columns r" by simp
    have "foldl (step_row self) r (ts @ [t]) = step_row self (r\<lparr>embedding := x\<rparr>) t"
      by (simp add: x)
    also have "\<dots> = rewritten self r"
      by (simp add: t step_row_def select_columns_def set_embedding_def rewritten_def)
    finally show ?thesis .
  next
    case False
    with snoc.prems(1) have mem: "select_columns r \<in> set ts"
      by (auto simp: select_columns_def)
    have "foldl (step_row self) r ts = rewritten self r"
      using snoc.IH mem snoc.prems(2) by simp
    moreover have "step_row self (rewritten self r) t = rewritten self r"
      using False by (cases t) (simp add: step_row_def set_embedding_def rewritten_def)
    ultimately show ?thesis by simp
  qed
qed

lemma all_rows_embedded:
  "list_all embedding_is_not_null (foldl (apply_update self) (committed db) (fetched_of db))"
proof -
  have "embedding (foldl (step_row self) r (fetched_of db)) \<noteq> None"
    if "r \<in> set (committed db)" for r
  proof (rule foldl_step_row_some)
    show "select_columns r \<in> set (fetched_of db)"
      using that by (simp add: fetched_of_def)
    show "fst (select_columns r) = row_id r"
      by (simp add: select_columns_def)
  qed
  then show ?thesis
    by (simp add: foldl_apply_update_rows list_all_iff embedding_is_not_null_def)
qed

lemma all_rows_rewritten:
  assumes "distinct (map row_id (committed db))"
  shows "foldl (apply_update self) (committed db) (fetched_of db)
           = map (rewritten self) (committed db)"
proof -
  have "foldl (step_row self) r (fetched_of db) = rewritten self r"
    if r: "r \<in> set (committed db)" for r
  proof (rule foldl_step_row_own)
    show "select_columns r \<in> set (fetched_of db)"
      using r by (simp add: fetched_of_def)
  next
    fix t
    assume "t \<in> set (fetched_of db)" and same: "fst t = row_id r"
    then obtain r' where r': "r' \<in> set (committed db)" "t = select_columns r'"
      by (auto simp: fetched_of_def)
    with same have "row_id r' = row_id r" by (simp add: select_columns_def)
    with assms r r'(1) have "r' = r" by (simp add: distinct_map inj_on_def)
    with r'(2) show "t = select_columns r" by simp
  qed
  then show ?thesis by (simp add: foldl_apply_update_rows)
qed

text \<open>
  \<^bold>\<open>C10.\<close> \<^verbatim>\<open>create_sample_embeddings\<close> never returns: on every cursor it issues its three
  inserts and raises \<^verbatim>\<open>NameError\<close>. So when the table is empty, \<^verbatim>\<open>update_embeddings\<close>
  raises on every run and the process exits with status 1, the table still empty. With
  the server reachable, \<^verbatim>\<open>update_embeddings\<close> raises that \<^verbatim>\<open>NameError\<close>, and the calls of the
  run are the select, the three inserts, \<open>Rollback\<close> and \<open>Close\<close>: no update is issued,
  and the table is empty afterwards, both as committed and as the transaction last saw
  it.
\<close>

theorem empty_table_run_raises:
  assumes "committed (db :: 'a pg) = []"
  shows "(\<forall>cursor :: 'a pg. fst (create_sample_embeddings cursor) = Inl NameError
            \<and> calls (snd (create_sample_embeddings cursor))
                = calls cursor @ map insert_call sample_resources)
       \<and> (\<exists>e. fst (update_embeddings self db) = Inl e)
       \<and> fst (main hub db) = 1
       \<and> committed (snd (main hub db)) = []
       \<and> committed (snd (update_embeddings self db)) = []
       \<and> (reachable db \<longrightarrow>
            fst (update_embeddings self db) = Inl NameError
            \<and> working (snd (update_embeddings self db)) = []
            \<and> calls (snd (update_embeddings self db))
                = calls db @ Select_Resources # map insert_call sample_resources @ [Rollback, Close])"
proof (cases "reachable db")
  case False
  then have "update_embeddings g db = (Inl OperationalError, db)" for g :: "'a generator"
    by (rule update_embeddings_unreachable)
  with False assms show ?thesis
    by (simp add: main_def load_model_def create_sample_embeddings_def foldl_insert_frame
          split: sum.splits)
next
  case True
  let ?s = "foldl execute_insert
      (db\<lparr>working := [], results := Some [], calls := calls db @ [Select_Resources]\<rparr>)
      sample_resources"
  have run: "update_embeddings g db = (Inl NameError, close (rollback ?s))"
    for g :: "'a generator"
    using True assms by (rule update_embeddings_empty)
  have after: "committed (close (rollback ?s)) = []" "working (close (rollback ?s)) = []"
      "calls (close (rollback ?s))
         = calls db @ Select_Resources # map insert_call sample_resources @ [Rollback, Close]"
    using assms by (simp_all add: close_def rollback_def foldl_insert_frame)
  have "fst (main hub db) = 1" and "committed (snd (main hub db)) = []"
    using assms after(1) by (simp_all add: main_def load_model_def run split: sum.splits)
  with run after show ?thesis
    by (simp add: create_sample_embeddings_def foldl_insert_frame)
qed

theorem empty_table_run_raises_witness:
  "committed empty_db = [] \<and> reachable empty_db
   \<and> fst (update_embeddings \<lparr>model = None\<rparr> empty_db) = Inl NameError
   \<and> fst (main (Inr toy_encode) empty_db) = 1
   \<and> committed (snd (update_embeddings \<lparr>model = None\<rparr> empty_db)) = []
   \<and> calls (snd (update_embeddings \<lparr>model = None\<rparr> empty_db))
       = Select_Resources # map insert_call sample_resources @ [Rollback, Close]"
proof -
  have a: "committed empty_db = []" and b: "reachable empty_db" and c: "calls empty_db = []"
    by (simp_all add: empty_db_def)
  from empty_table_run_raises [OF a, of "\<lparr>model = None\<rparr>" "Inr toy_encode"] a b c
  show ?thesis by simp
qed

text \<open>
  \<^bold>\<open>C2.\<close> The run on an empty table with a model that embeds every text. The
  specification expects three seeded rows before the loop, each with an embedding at
  the end. The three rows are inserted, but the run then raises \<^verbatim>\<open>NameError\<close>; no update
  is among its calls, the committed table is still empty, and the exit status is 1.
\<close>

theorem seeding_run_on_empty_table:
  "fst (update_embeddings \<lparr>model = Some toy_encode\<rparr> empty_db) = Inl NameError
   \<and> filter is_update (calls (snd (update_embeddings \<lparr>model = Some toy_encode\<rparr> empty_db))) = []
   \<and> length (working (snd (create_sample_embeddings
        (snd (fetchall (execute_select (snd (connect empty_db)))))))) = 3
   \<and> committed (snd (update_embeddings \<lparr>model = Some toy_encode\<rparr> empty_db)) = []
   \<and> main (Inr toy_encode) empty_db
       = (1, snd (update_embeddings \<lparr>model = Some toy_encode\<rparr> empty_db))"
  by code_simp

text \<open>
  \<^bold>\<open>C3\<close>, as the specification states it: the rows selected and updated are exactly
  the rows whose \<^verbatim>\<open>embedding\<close> is null. On a table whose row 1 has an embedding and
  whose row 2 has none, rows 1 and 2 are both selected, though only row 2 lacks an
  embedding, and both are updated: the embedding of row 1 is replaced.
\<close>

theorem fetch_only_rows_lacking_embedding_counterexample:
  "map fst (fetched_of stale_db) \<noteq> map row_id (filter lacks_embedding (committed stale_db))
   \<and> fst (fetchall (execute_select (snd (connect stale_db)))) = Inr (fetched_of stale_db)
   \<and> map fst (fetched_of stale_db) = [1, 2]
   \<and> map row_id (filter lacks_embedding (committed stale_db)) = [2]
   \<and> map embedding (committed stale_db) = [Some [0, 0, 0], None]
   \<and> fst (update_embeddings \<lparr>model = Some toy_encode\<rparr> stale_db) = Inr ()
   \<and> filter is_update (calls (snd (update_embeddings \<lparr>model = Some toy_encode\<rparr> stale_db)))
       = [Update_Embedding 1 [131], Update_Embedding 2 [127]]
   \<and> map embedding (committed (snd (update_embeddings \<lparr>model = Some toy_encode\<rparr> stale_db)))
       = [Some [131], Some [127]]"
  by code_simp

text \<open>
  \<^bold>\<open>C3\<close>, amended. The fetch step reads every row of the table, whatever its
  \<^verbatim>\<open>embedding\<close> holds: the tuples fetched are those of all rows, one per row. On a run
  that returns, every fetched tuple gets its update, so every row of the committed
  table has an embedding afterwards, and with unique ids each row, also one that had an
  embedding before, holds the embedding computed from its own payload in this run.
\<close>

theorem fetch_reads_every_row:
  assumes "connect db = (Inr (), conn)"
      and "fetchall (execute_select conn) = (Inr resources, s1)"
  shows "set resources = select_columns ` set (committed db)
       \<and> length resources = length (committed db)
       \<and> (\<forall>db'. update_embeddings self db = (Inr (), db') \<longrightarrow>
             calls db' = calls db @ Select_Resources # map (update_call self) resources
                 @ [Commit, Count_Embeddings, Sample_Embedding, Close]
             \<and> list_all embedding_is_not_null (committed db')
             \<and> (distinct (map row_id (committed db)) \<longrightarrow>
                  committed db' = map (rewritten self) (committed db)))"
proof -
  from connect_ok [OF assms(1)] have conn: "working conn = committed db" by simp
  from assms(2) have res: "resources = fetched_of db"
    using conn by (auto simp: fetch_after_select fetched_of_def)
  have "set resources = select_columns ` set (committed db)"
    and "length resources = length (committed db)"
    by (simp_all add: res fetched_of_def)
  moreover have "calls db' = calls db @ Select_Resources # map (update_call self) resources
                 @ [Commit, Count_Embeddings, Sample_Embedding, Close]
             \<and> list_all embedding_is_not_null (committed db')
             \<and> (distinct (map row_id (committed db)) \<longrightarrow>
                  committed db' = map (rewritten self) (committed db))"
    if "update_embeddings self db = (Inr (), db')" for db'
    using update_embeddings_success [OF that]
    by (simp add: res all_rows_embedded all_rows_rewritten)
  ultimately show ?thesis by blast
qed

theorem fetch_reads_every_row_witness:
  "fst (connect stale_db) = Inr ()
   \<and> fst (fetchall (execute_select (snd (connect stale_db)))) = Inr (fetched_of stale_db)
   \<and> length (fetched_of stale_db) = 2
   \<and> update_embeddings \<lparr>model = Some toy_encode\<rparr> stale_db
       = (Inr (), snd (update_embeddings \<lparr>model = Some toy_encode\<rparr> stale_db))
   \<and> distinct (map row_id (committed stale_db))
   \<and> committed (snd (update_embeddings \<lparr>model = Some toy_encode\<rparr> stale_db))
       = map (rewritten \<lparr>model = Some toy_encode\<rparr>) (committed stale_db)
   \<and> list_all embedding_is_not_null
        (committed (snd (update_embeddings \<lparr>model = Some toy_encode\<rparr> stale_db)))"
proof -
  let ?g = "\<lparr>model = Some toy_encode\<rparr>"
  let ?conn = "snd (connect stale_db)"
  let ?s1 = "snd (fetchall (execute_select ?conn))"
  have a: "connect stale_db = (Inr (), ?conn)"
    by code_simp
  have b: "fetchall (execute_select ?conn) = (Inr (fetched_of stale_db), ?s1)"
    by code_simp
  have "fst (update_embeddings ?g stale_db) = Inr ()"
    by code_simp
  then have c: "update_embeddings ?g stale_db = (Inr (), snd (update_embeddings ?g stale_db))"
    by (simp add: prod_eq_iff)
  have d: "distinct (map row_id (committed stale_db))" "length (fetched_of stale_db) = 2"
    "fst (connect stale_db) = Inr ()"
    "fst (fetchall (execute_select ?conn)) = Inr (fetched_of stale_db)"
    by code_simp+
  from fetch_reads_every_row [OF a b, of ?g] c d(1)
  have "committed (snd (update_embeddings ?g stale_db)) = map (rewritten ?g) (committed stale_db)"
    and "list_all embedding_is_not_null (committed (snd (update_embeddings ?g stale_db)))"
    by blast+
  with c d show ?thesis
    by blast
qed

section \<open>The exit status\<close>



end
